theory Spec2Isabelle
  imports Complex_Main "HOL-Library.Word"
begin

section \<open>Strings and paths\<close>

text \<open>
  Paths and extensions are Python \<open>str\<close> values; they are modelled as \<open>string\<close>, one
  \<open>char\<close> per code point below 256. \<open>lower\<close> is \<open>str.lower\<close> on that range: the letters
  A..Z and the Latin-1 capitals (all of 192..222 but the multiplication sign 215) move up
  by 32, every other character stays.
\<close>

definition lower_char :: "char \<Rightarrow> char" where
  "lower_char c =
     (let n = (of_char c :: nat)
      in if (65 \<le> n \<and> n \<le> 90) \<or> (192 \<le> n \<and> n \<le> 222 \<and> n \<noteq> 215)
         then char_of (n + 32) else c)"

definition lower :: "string \<Rightarrow> string" where
  "lower s = map lower_char s"

text \<open>\<open>s.strip(".")\<close>: every leading and every trailing dot is removed.\<close>

definition strip_dots :: "string \<Rightarrow> string" where
  "strip_dots s =
     rev (dropWhile (\<lambda>c. c = CHR ''.'') (rev (dropWhile (\<lambda>c. c = CHR ''.'') s)))"

text \<open>\<open>p.rfind(c)\<close>: the index of the last occurrence of \<open>c\<close>, or \<open>-1\<close>.\<close>

primrec rfind_from :: "char \<Rightarrow> string \<Rightarrow> nat \<Rightarrow> int \<Rightarrow> int" where
  "rfind_from c [] i found = found"
| "rfind_from c (x # xs) i found = rfind_from c xs (Suc i) (if x = c then int i else found)"

definition rfind :: "string \<Rightarrow> char \<Rightarrow> int" where
  "rfind p c = rfind_from c p 0 (- 1)"

text \<open>
  \<open>os.path.splitext\<close> on a POSIX system (separator \<open>/\<close>, no alternative separator): the
  extension starts at the last dot of the last path component, unless that component has
  only dots before it. The loop of the library function skips the leading dots.
\<close>

function splitext_scan :: "string \<Rightarrow> nat \<Rightarrow> nat \<Rightarrow> string \<times> string" where
  "splitext_scan p filenameIndex dotIndex =
     (if filenameIndex < dotIndex then
        (if take 1 (drop filenameIndex p) \<noteq> ''.'' then (take dotIndex p, drop dotIndex p)
         else splitext_scan p (Suc filenameIndex) dotIndex)
      else (p, ''''))"
  by pat_completeness auto
termination
  by (relation "measure (\<lambda>(p, filenameIndex, dotIndex). dotIndex - filenameIndex)") auto

definition splitext :: "string \<Rightarrow> string \<times> string" where
  "splitext p =
     (let sepIndex = rfind p CHR ''/'';
          dotIndex = rfind p CHR ''.''
      in if dotIndex > sepIndex then splitext_scan p (nat (sepIndex + 1)) (nat dotIndex)
         else (p, ''''))"

text \<open>\<open>os.path.basename\<close> and \<open>os.path.join\<close> of two components, POSIX flavour.\<close>

definition basename :: "string \<Rightarrow> string" where
  "basename p = drop (nat (rfind p CHR ''/'' + 1)) p"

definition path_join :: "string \<Rightarrow> string \<Rightarrow> string" where
  "path_join a b =
     (if take 1 b = ''/'' then b
      else if a = '''' \<or> last a = CHR ''/'' then a @ b
      else a @ ''/'' @ b)"

section \<open>Errors and the environment\<close>

text \<open>
  Every exception of the source is a value. \<open>ValueError\<close> is the error raised on invalid
  input; \<open>OSError\<close> stands for the file-system errors (\<open>FileNotFoundError\<close> among them).
  The byte frequencies are the doubles that Python's division returns. The compression
  ratio and the entropy, whose logarithm is the platform's, are kept as real numbers.
\<close>

datatype error =
    ValueError string
  | OSError string
  | TypeError string
  | KeyError string
  | IndexError
  | CalledProcessError nat
  | TimeoutExpired
  | LibraryError string
  | ZeroDivisionError
  | OverflowError

type_synonym byte = "8 word"

text \<open>
  A file of the file system: its bytes, whether opening it for reading succeeds, and the
  number of \<open>read\<close> calls that succeed before one raises (\<open>None\<close>: every call succeeds).
  The size of a file is the number of its bytes; the file system does not change during a
  call.
\<close>

record fs_file =
  content :: "byte list"
  can_open :: bool
  read_fault :: "nat option"

text \<open>An open binary file: the bytes not yet read, and the reads left before a fault.\<close>

record handle =
  rest :: "byte list"
  fault :: "nat option"

text \<open>What a decoded WAV file offers: length in milliseconds, frame rate, channels, sample width.\<close>

record audio_segment =
  len_ms :: nat
  frame_rate :: nat
  channels :: nat
  sample_width :: nat

text \<open>Things the benchmark does to the outside world, in the order it does them.\<close>

datatype event =
    Which string
  | CopyFile string string
  | Run "string list" string

text \<open>
  The environment a call runs in. The file system is \<open>files\<close>; the imaging, audio, text and
  PDF libraries, the search path, the temporary directory, the external tools and the clock
  are parameters, one field for each call the source makes to them.
  \<open>tempfile.TemporaryDirectory()\<close> gives the directory \<open>temp_dir\<close> unless creating it raises
  \<open>temp_dir_error\<close>; removing it when the \<open>with\<close> block is left raises \<open>cleanup_error\<close>, if any.
\<close>

record world =
  files :: "string \<rightharpoonup> fs_file"
  image_open :: "string \<Rightarrow> error + (nat \<times> nat \<times> nat)"
  PYDUB_AVAILABLE :: bool
  from_wav :: "string \<Rightarrow> error + audio_segment"
  readlines :: "string \<Rightarrow> error + string list"
  PYMUPDF_AVAILABLE :: bool
  fitz_page_count :: "string \<Rightarrow> error + nat"
  which :: "string \<Rightarrow> string option"
  temp_dir :: string
  temp_dir_error :: "error option"
  cleanup_error :: "error option"
  copyfile :: "string \<Rightarrow> string \<Rightarrow> error + unit"
  subprocess_run :: "string list \<Rightarrow> string \<Rightarrow> error + nat"
  output_size :: "string list \<Rightarrow> string \<Rightarrow> nat option"
  time_time :: "nat \<Rightarrow> real"

text \<open>
  \<open>os.path.getsize\<close>: the size of what the path names. A path that names nothing raises: a
  \<open>ValueError\<close> when it contains a NUL character, an \<open>OSError\<close> otherwise. Nothing in a file
  system has a NUL in its name. A directory is an entry that cannot be opened for reading;
  its bytes stand for its size.
\<close>

definition getsize :: "world \<Rightarrow> string \<Rightarrow> error + nat" where
  "getsize w file_path =
     (case files w file_path of
        None \<Rightarrow>
          if CHR 0x00 \<in> set file_path then Inl (ValueError ''embedded null byte'')
          else Inl (OSError ''No such file or directory'')
      | Some f \<Rightarrow> Inr (length (content f)))"

definition open_rb :: "world \<Rightarrow> string \<Rightarrow> error + handle" where
  "open_rb w file_path =
     (case files w file_path of
        None \<Rightarrow>
          if CHR 0x00 \<in> set file_path then Inl (ValueError ''embedded null byte'')
          else Inl (OSError ''No such file or directory'')
      | Some f \<Rightarrow>
          if can_open f then Inr \<lparr>rest = content f, fault = read_fault f\<rparr>
          else Inl (OSError ''Permission denied''))"

text \<open>\<open>f.read(n)\<close>: at most \<open>n\<close> bytes, the empty chunk at the end of the file.\<close>

definition f_read :: "nat \<Rightarrow> handle \<Rightarrow> error + (byte list \<times> handle)" where
  "f_read n h =
     (case fault h of
        Some 0 \<Rightarrow> Inl (OSError ''Input/output error'')
      | Some (Suc k) \<Rightarrow> Inr (take n (rest h), \<lparr>rest = drop n (rest h), fault = Some k\<rparr>)
      | None \<Rightarrow> Inr (take n (rest h), \<lparr>rest = drop n (rest h), fault = None\<rparr>))"

section \<open>Feature extraction\<close>

subsection \<open>Universal features\<close>

text \<open>
  A \<open>Counter\<close> keeps its keys in the order they were first seen, so it is an association
  list. \<open>counts.update(chunk)\<close> adds one for each byte of the chunk; a byte is the integer
  \<open>unat b\<close>.
\<close>

type_synonym counter = "(nat \<times> nat) list"

fun counter_add :: "counter \<Rightarrow> nat \<Rightarrow> counter" where
  "counter_add [] k = [(k, 1)]"
| "counter_add ((k', v) # kvs) k =
     (if k' = k then (k', v + 1) # kvs else (k', v) # counter_add kvs k)"

definition counter_update :: "counter \<Rightarrow> byte list \<Rightarrow> counter" where
  "counter_update counts chunk = foldl counter_add counts (map unat chunk)"

definition counter_get :: "counter \<Rightarrow> nat \<Rightarrow> nat" where
  "counter_get counts i = (case map_of counts i of Some v \<Rightarrow> v | None \<Rightarrow> 0)"

definition counter_values :: "counter \<Rightarrow> nat list" where
  "counter_values counts = map snd counts"

text \<open>The loop \<open>while chunk := f.read(1024 * 1024): counts.update(chunk)\<close>.\<close>

function count_chunks :: "handle \<Rightarrow> counter \<Rightarrow> error + counter" where
  "count_chunks h counts =
     (case f_read (1024 * 1024) h of
        Inl e \<Rightarrow> Inl e
      | Inr (chunk, h') \<Rightarrow>
          if chunk = [] then Inr counts
          else count_chunks h' (counter_update counts chunk))"
  by pat_completeness auto
termination
  by (relation "measure (\<lambda>(h, counts). length (rest h))")
     (auto simp: f_read_def split: option.splits nat.splits)

text \<open>\<open>math.log2\<close> raises on an argument that is not positive.\<close>

definition log2 :: "real \<Rightarrow> error + real" where
  "log2 x = (if x \<le> 0 then Inl (ValueError ''math domain error'') else Inr (log 2 x))"

text \<open>
  \<open>sum((c / file_size) * math.log2(c / file_size) for c in counts.values())\<close>, added from
  the left starting at 0.
\<close>

fun sum_plogp :: "nat \<Rightarrow> real \<Rightarrow> nat list \<Rightarrow> error + real" where
  "sum_plogp file_size acc [] = Inr acc"
| "sum_plogp file_size acc (c # cs) =
     (case log2 (real c / real file_size) of
        Inl e \<Rightarrow> Inl e
      | Inr l \<Rightarrow> sum_plogp file_size (acc + (real c / real file_size) * l) cs)"

text \<open>
  Python's \<open>a / b\<close> on two integers that are not negative: the double nearest to the
  quotient, ties to the even mantissa. The result is a mantissa \<open>m\<close> of at most 53 bits
  divided by \<open>2 ^ k\<close>: \<open>scale_up\<close> finds the least \<open>k\<close> that brings the quotient to \<open>2 ^ 52\<close> or
  above, and \<open>k\<close> stops at 1074, the exponent of the subnormal doubles; a quotient of
  \<open>2 ^ 53\<close> or more is scaled down instead, and overflows at \<open>2 ^ 1024\<close>. The double is kept
  as the real number it stands for.
\<close>

definition round_half_even :: "nat \<Rightarrow> nat \<Rightarrow> nat" where
  "round_half_even a b =
     (let q = a div b; r = a mod b
      in if 2 * r < b then q
         else if b < 2 * r then q + 1
         else if even q then q else q + 1)"

function scale_up :: "nat \<Rightarrow> nat \<Rightarrow> nat \<Rightarrow> nat" where
  "scale_up a b k = (if a = 0 \<or> 2 ^ 52 * b \<le> a * 2 ^ k then k else scale_up a b (Suc k))"
  by pat_completeness auto
termination
proof (relation "measure (\<lambda>(a, b, k). 2 ^ 52 * b - a * 2 ^ k)")
  show "wf (measure (\<lambda>(a, b, k). 2 ^ 52 * b - a * 2 ^ k))"
    by simp
next
  fix a b k :: nat
  assume "\<not> (a = 0 \<or> 2 ^ 52 * b \<le> a * 2 ^ k)"
  then have "a * 2 ^ k < a * 2 ^ Suc k" and "a * 2 ^ k < 2 ^ 52 * b"
    by auto
  then have "2 ^ 52 * b - a * 2 ^ Suc k < 2 ^ 52 * b - a * 2 ^ k"
    by (rule diff_less_mono2)
  then show "((a, b, Suc k), (a, b, k)) \<in> measure (\<lambda>(a, b, k). 2 ^ 52 * b - a * 2 ^ k)"
    by simp
qed

function scale_down :: "nat \<Rightarrow> nat \<Rightarrow> nat \<Rightarrow> nat" where
  "scale_down a b j = (if b = 0 \<or> a < 2 ^ 53 * b * 2 ^ j then j else scale_down a b (Suc j))"
  by pat_completeness auto
termination
proof (relation "measure (\<lambda>(a, b, j). Suc a - 2 ^ 53 * b * 2 ^ j)")
  show "wf (measure (\<lambda>(a, b, j). Suc a - 2 ^ 53 * b * 2 ^ j))"
    by simp
next
  fix a b j :: nat
  assume "\<not> (b = 0 \<or> a < 2 ^ 53 * b * 2 ^ j)"
  then have "2 ^ 53 * b * 2 ^ j < 2 ^ 53 * b * 2 ^ Suc j" and "2 ^ 53 * b * 2 ^ j < Suc a"
    by auto
  then have "Suc a - 2 ^ 53 * b * 2 ^ Suc j < Suc a - 2 ^ 53 * b * 2 ^ j"
    by (rule diff_less_mono2)
  then show "((a, b, Suc j), (a, b, j)) \<in> measure (\<lambda>(a, b, j). Suc a - 2 ^ 53 * b * 2 ^ j)"
    by simp
qed

definition true_div :: "nat \<Rightarrow> nat \<Rightarrow> error + real" where
  "true_div a b =
     (if b = 0 then Inl ZeroDivisionError
      else if a < 2 ^ 53 * b then
        (let k = min (scale_up a b 0) 1074
         in Inr (real (round_half_even (a * 2 ^ k) b) / 2 ^ k))
      else
        (let j = scale_down a b 0;
             m = round_half_even a (b * 2 ^ j)
         in if 2 ^ 1024 \<le> m * 2 ^ j then Inl OverflowError
            else Inr (real m * 2 ^ j)))"


text \<open>
  The dictionary \<open>{i: counts.get(i, 0) / file_size for i in range(256)}\<close>, in key order; the
  divisions are float divisions, one for each key.
\<close>

type_synonym byte_dist = "(nat \<times> real) list"

fun byte_dist_of :: "counter \<Rightarrow> nat \<Rightarrow> nat list \<Rightarrow> error + byte_dist" where
  "byte_dist_of counts file_size [] = Inr []"
| "byte_dist_of counts file_size (i # ks) =
     (case true_div (counter_get counts i) file_size of
        Inl e \<Rightarrow> Inl e
      | Inr v \<Rightarrow>
          (case byte_dist_of counts file_size ks of
             Inl e \<Rightarrow> Inl e
           | Inr bd \<Rightarrow> Inr ((i, v) # bd)))"


text \<open>The dictionary \<open>{i: 0.0 for i in range(256)}\<close>.\<close>

definition zero_dist :: byte_dist where
  "zero_dist = map (\<lambda>i. (i, 0)) [0..<256]"

text \<open>The body of the \<open>try\<close> block of \<open>get_universal_features\<close>.\<close>

definition get_universal_features_try :: "world \<Rightarrow> string \<Rightarrow> error + (nat \<times> real \<times> byte_dist)" where
  "get_universal_features_try w file_path =
     (case getsize w file_path of
        Inl e \<Rightarrow> Inl e
      | Inr file_size \<Rightarrow>
          if file_size = 0 then Inr (0, 0, zero_dist)
          else
            (case open_rb w file_path of
               Inl e \<Rightarrow> Inl e
             | Inr f \<Rightarrow>
                 (case count_chunks f [] of
                    Inl e \<Rightarrow> Inl e
                  | Inr counts \<Rightarrow>
                      (case (if file_size > 0
                             then map_sum id uminus (sum_plogp file_size 0 (counter_values counts))
                             else Inr 0) of
                         Inl e \<Rightarrow> Inl e
                       | Inr entropy \<Rightarrow>
                           (case byte_dist_of counts file_size [0..<256] of
                              Inl e \<Rightarrow> Inl e
                            | Inr byte_dist \<Rightarrow> Inr (file_size, entropy, byte_dist))))))"

text \<open>\<open>except Exception\<close>: every error of the body becomes the all-zero result.\<close>

definition get_universal_features :: "world \<Rightarrow> string \<Rightarrow> error + (nat \<times> real \<times> byte_dist)" where
  "get_universal_features w file_path =
     (case get_universal_features_try w file_path of
        Inl e \<Rightarrow> Inr (0, 0, zero_dist)
      | Inr r \<Rightarrow> Inr r)"

subsection \<open>Type-specific features\<close>

text \<open>
  \<open>Image.open\<close> gives the width, the height and the number of bands of an image, or raises.
  The bit depth is the constant 8.
\<close>

definition get_image_features :: "world \<Rightarrow> string \<Rightarrow> error + (real \<times> real \<times> real \<times> real)" where
  "get_image_features w file_path =
     (case image_open w file_path of
        Inl e \<Rightarrow> Inr (0, 0, 0, 0)
      | Inr (width, height, bands) \<Rightarrow> Inr (real width, real height, real bands, 8))"

definition get_audio_features :: "world \<Rightarrow> string \<Rightarrow> error + (real \<times> real \<times> real \<times> real)" where
  "get_audio_features w file_path =
     (if \<not> PYDUB_AVAILABLE w then Inr (0, 0, 0, 0)
      else
        (case from_wav w file_path of
           Inl e \<Rightarrow> Inr (0, 0, 0, 0)
         | Inr audio \<Rightarrow>
             Inr (real (len_ms audio) / 1000, real (frame_rate audio), real (channels audio),
                  real (sample_width audio * 8))))"

text \<open>\<open>str.isspace\<close> on the code points below 256, and \<open>l.strip()\<close>.\<close>

definition is_space :: "char \<Rightarrow> bool" where
  "is_space c =
     (let n = (of_char c :: nat)
      in (9 \<le> n \<and> n \<le> 13) \<or> (28 \<le> n \<and> n \<le> 32) \<or> n = 133 \<or> n = 160)"

definition str_strip :: "string \<Rightarrow> string" where
  "str_strip s = rev (dropWhile is_space (rev (dropWhile is_space s)))"

definition get_text_features :: "world \<Rightarrow> string \<Rightarrow> error + real" where
  "get_text_features w file_path =
     (case readlines w file_path of
        Inl e \<Rightarrow> Inr 0
      | Inr lines \<Rightarrow>
          Inr (if lines \<noteq> []
               then real (sum_list (map (\<lambda>l. length (str_strip l)) lines)) / real (length lines)
               else 0))"

definition get_pdf_features :: "world \<Rightarrow> string \<Rightarrow> error + real" where
  "get_pdf_features w file_path =
     (if \<not> PYMUPDF_AVAILABLE w then Inr 0
      else
        (case fitz_page_count w file_path of
           Inl e \<Rightarrow> Inr 0
         | Inr page_count \<Rightarrow> Inr (real page_count)))"

subsection \<open>The feature vector\<close>

text \<open>
  The values of the insights mapping. The source formats numbers into strings; the model
  keeps the number and the number of decimals (\<open>Fixed\<close>), the upper-cased extension as
  \<open>Upper ext\<close> and the dimensions as the pair that is printed.
\<close>

datatype insight =
    Upper string
  | Fixed nat real
  | Dimensions real real
  | Number real

type_synonym insights = "(string \<times> insight) list"

text \<open>\<open>bd.get(i, 0)\<close> on the byte distribution.\<close>

definition bd_get :: "byte_dist \<Rightarrow> nat \<Rightarrow> real" where
  "bd_get bd i = (case map_of bd i of Some v \<Rightarrow> v | None \<Rightarrow> 0)"

text \<open>
  The \<open>if\<close>/\<open>elif\<close> chain of \<open>compile_feature_vector\<close>: the ten variables
  \<open>all, pc, w, h, ci, bdi, ds, sr, ca, bda\<close> start at 0 and one branch at most assigns some.
\<close>

definition type_features ::
  "world \<Rightarrow> string \<Rightarrow> string \<Rightarrow>
   error + (real \<times> real \<times> real \<times> real \<times> real \<times> real \<times> real \<times> real \<times> real \<times> real)" where
  "type_features w ext file_path =
     (if ext \<in> set [''txt'', ''csv'', ''json''] then
        (case get_text_features w file_path of
           Inl e \<Rightarrow> Inl e
         | Inr all \<Rightarrow> Inr (all, 0, 0, 0, 0, 0, 0, 0, 0, 0))
      else if ext = ''pdf'' then
        (case get_pdf_features w file_path of
           Inl e \<Rightarrow> Inl e
         | Inr pc \<Rightarrow> Inr (0, pc, 0, 0, 0, 0, 0, 0, 0, 0))
      else if ext \<in> set [''jpg'', ''jpeg'', ''png''] then
        (case get_image_features w file_path of
           Inl e \<Rightarrow> Inl e
         | Inr (wd, h, ci, bdi) \<Rightarrow> Inr (0, 0, wd, h, ci, bdi, 0, 0, 0, 0))
      else if ext = ''wav'' then
        (case get_audio_features w file_path of
           Inl e \<Rightarrow> Inl e
         | Inr (ds, sr, ca, bda) \<Rightarrow> Inr (0, 0, 0, 0, 0, 0, ds, sr, ca, bda))
      else Inr (0, 0, 0, 0, 0, 0, 0, 0, 0, 0))"

definition compile_feature_vector :: "world \<Rightarrow> string \<Rightarrow> error + (real list \<times> insights)" where
  "compile_feature_vector w file_path =
     (let ext = strip_dots (lower (snd (splitext file_path)))
      in case get_universal_features w file_path of
           Inl e \<Rightarrow> Inl e
         | Inr (fs, ent, bd) \<Rightarrow>
             (case type_features w ext file_path of
                Inl e \<Rightarrow> Inl e
              | Inr (all, pc, wd, h, ci, bdi, ds, sr, ca, bda) \<Rightarrow>
                  (let stat_features = [real fs, ent, all, pc, wd, h, ci, bdi, ds, sr, ca, bda];
                       byte_features = map (\<lambda>i. bd_get bd i) [0..<256];
                       raw_features = stat_features @ byte_features;
                       insights =
                         [(''File Type'', Upper ext),
                          (''File Size (KB)'', Fixed 2 (real fs / 1024)),
                          (''Shannon Entropy'', Fixed 4 ent)]
                         @ (if ds > 0 then [(''Duration (s)'', Fixed 2 ds)] else [])
                         @ (if wd > 0 then [(''Dimensions'', Dimensions wd h)] else [])
                         @ (if pc > 0 then [(''Page Count'', Number pc)] else [])
                   in Inr (raw_features, insights))))"

section \<open>Benchmarking\<close>

definition COMPRESSOR_PATHS :: "(string \<times> string) list" where
  "COMPRESSOR_PATHS =
     [(''7zip'', ''7z''), (''zip'', ''zip''), (''winrar'', ''rar''),
      (''gzip'', ''gzip''), (''bzip2'', ''bzip2''), (''flac'', ''flac'')]"

text \<open>
  \<open>subprocess.run(cmd, cwd=temp_dir, check=True, timeout=60)\<close>: the environment says how the
  process ends (an exit status, or the error of a timeout or of a failed start); with
  \<open>check=True\<close> an exit status other than 0 raises.
\<close>

definition run_checked :: "world \<Rightarrow> string list \<Rightarrow> string \<Rightarrow> error + unit" where
  "run_checked w cmd cwd =
     (case subprocess_run w cmd cwd of
        Inl e \<Rightarrow> Inl e
      | Inr returncode \<Rightarrow> if returncode \<noteq> 0 then Inl (CalledProcessError returncode) else Inr ())"

text \<open>
  The command of a tool, as the \<open>try\<close> block of \<open>run_single_compression\<close> builds it:
  \<open>output_path\<close> and \<open>cmd\<close> start empty, the first \<open>if\<close>/\<open>elif\<close> chain sets them for the four
  archivers, and the second one runs the command, after setting both for the two stream
  compressors. The third component says whether one of the two branches that call
  \<open>subprocess.run\<close> is taken.
\<close>

definition tool_command ::
  "string \<Rightarrow> string \<Rightarrow> string \<Rightarrow> string \<Rightarrow> string \<Rightarrow> string \<times> string list \<times> bool" where
  "tool_command tool executable tmp base_name temp_input_path =
     (let (output_path, cmd) =
            (if tool = ''7zip'' then
               (path_join tmp ''output.7z'',
                [executable, ''a'', ''-y'', path_join tmp ''output.7z'', base_name])
             else if tool = ''winrar'' then
               (path_join tmp ''output.rar'',
                [executable, ''a'', ''-m5'', ''-o+'', path_join tmp ''output.rar'', base_name])
             else if tool = ''zip'' then
               (path_join tmp ''output.zip'',
                [executable, ''-9'', ''-j'', path_join tmp ''output.zip'', base_name])
             else if tool = ''flac'' then
               (path_join tmp ''output.flac'',
                [executable, ''-8'', ''-f'', ''-o'', path_join tmp ''output.flac'', base_name])
             else ([], []))
      in if tool \<in> set [''7zip'', ''winrar'', ''zip'', ''flac''] then (output_path, cmd, True)
         else if tool \<in> set [''gzip'', ''bzip2''] then
           (let output_path = (if tool = ''gzip'' then temp_input_path @ ''.gz'' else output_path);
                output_path = (if tool = ''bzip2'' then temp_input_path @ ''.bz2'' else output_path);
                cmd = [executable, ''-9'', temp_input_path]
            in (output_path, cmd, True))
         else (output_path, cmd, False))"

text \<open>
  The first part of the \<open>try\<close> block of \<open>run_single_compression\<close>, up to
  \<open>comp_size = os.path.getsize(output_path)\<close>: the input is copied into the temporary
  directory, the command of the tool is built and run there, and the size of the output
  file is read (\<open>output_size\<close> is the file system after the command; \<open>None\<close>: no such file).
  The result is \<open>comp_size\<close> and \<open>output_path\<close>, with the events in order.
\<close>

definition run_tool ::
  "world \<Rightarrow> string \<Rightarrow> string \<Rightarrow> string \<Rightarrow> (error + (nat \<times> string)) \<times> event list" where
  "run_tool w tool file_path executable =
     (let base_name = basename file_path;
          temp_input_path = path_join (temp_dir w) base_name;
          ev_copy = [CopyFile file_path temp_input_path]
      in case copyfile w file_path temp_input_path of
           Inl e \<Rightarrow> (Inl e, ev_copy)
         | Inr _ \<Rightarrow>
             (case tool_command tool executable (temp_dir w) base_name temp_input_path of
                (output_path, cmd, runs) \<Rightarrow>
                  (let ran = (if runs then run_checked w cmd (temp_dir w) else Inr ());
                       ev_run = (if runs then ev_copy @ [Run cmd (temp_dir w)] else ev_copy)
                   in case ran of
                        Inl e \<Rightarrow> (Inl e, ev_run)
                      | Inr _ \<Rightarrow>
                          (case output_size w cmd output_path of
                             None \<Rightarrow> (Inl (OSError ''No such file or directory''), ev_run)
                           | Some comp_size \<Rightarrow> (Inr (comp_size, output_path), ev_run)))))"

text \<open>
  The whole \<open>try\<close> block: the ratio, the copy of the output to
  \<open>compressed_output.<tool>\<close>, and the result. \<open>time_time w 0\<close> is the clock at the start of
  the call and \<open>time_time w 1\<close> the clock when the result is built.
\<close>

definition run_single_compression_try ::
  "world \<Rightarrow> string \<Rightarrow> string \<Rightarrow> string \<Rightarrow> nat \<Rightarrow>
   (error + (real \<times> real \<times> string option)) \<times> event list" where
  "run_single_compression_try w tool file_path executable original_size =
     (case run_tool w tool file_path executable of
        (Inl e, evs) \<Rightarrow> (Inl e, evs)
      | (Inr (comp_size, output_path), evs) \<Rightarrow>
          (let ratio = (if comp_size > 0 then real original_size / real comp_size else 1);
               final_download_path = ''compressed_output.'' @ tool;
               evs' = evs @ [CopyFile output_path final_download_path]
           in case copyfile w output_path final_download_path of
                Inl e \<Rightarrow> (Inl e, evs')
              | Inr _ \<Rightarrow>
                  (Inr (ratio, time_time w 1 - time_time w 0, Some final_download_path), evs')))"

text \<open>
  \<open>run_single_compression\<close>. The size lookup and the search for the executable are outside
  the \<open>try\<close> block; \<open>shutil.which\<close> of the \<open>None\<close> that an unknown tool name gives raises a
  \<open>TypeError\<close>. The \<open>with tempfile.TemporaryDirectory()\<close> statement encloses the \<open>try\<close> block:
  an error of creating the directory, or of removing it when the block is left, is not
  caught.
\<close>

definition run_single_compression ::
  "world \<Rightarrow> string \<Rightarrow> string \<Rightarrow> (error + (real \<times> real \<times> string option)) \<times> event list" where
  "run_single_compression w tool file_path =
     (case getsize w file_path of
        Inl e \<Rightarrow> (Inl e, [])
      | Inr original_size \<Rightarrow>
          if original_size = 0 then (Inr (1, 0, None), [])
          else
            (case map_of COMPRESSOR_PATHS tool of
               None \<Rightarrow> (Inl (TypeError ''expected str, bytes or os.PathLike object, not NoneType''), [])
             | Some tool_cmd_path \<Rightarrow>
                 (case which w tool_cmd_path of
                    None \<Rightarrow> (Inr (1, 0, None), [Which tool_cmd_path])
                  | Some executable \<Rightarrow>
                      if executable = [] then (Inr (1, 0, None), [Which tool_cmd_path])
                      else
                        (case temp_dir_error w of
                           Some e \<Rightarrow> (Inl e, [Which tool_cmd_path])
                         | None \<Rightarrow>
                             (case run_single_compression_try w tool file_path executable
                                     original_size of
                                (res, evs) \<Rightarrow>
                                  (case cleanup_error w of
                                     Some e \<Rightarrow> (Inl e, Which tool_cmd_path # evs)
                                   | None \<Rightarrow>
                                       (case res of
                                          Inl e \<Rightarrow>
                                            (Inr (1, time_time w 1 - time_time w 0, None),
                                             Which tool_cmd_path # evs)
                                        | Inr r \<Rightarrow> (Inr r, Which tool_cmd_path # evs))))))))"

subsection \<open>The full benchmark\<close>

text \<open>\<open>d[k] = v\<close> on a dictionary kept in insertion order.\<close>

fun dict_set :: "('k \<times> 'v) list \<Rightarrow> 'k \<Rightarrow> 'v \<Rightarrow> ('k \<times> 'v) list" where
  "dict_set [] k v = [(k, v)]"
| "dict_set ((k', v') # kvs) k v =
     (if k' = k then (k', v) # kvs else (k', v') # dict_set kvs k v)"

record benchmark_results =
  ratios :: "(string \<times> real) list"
  sizes :: "(string \<times> real) list"

definition all_tools :: "string list" where
  "all_tools = [''7zip'', ''zip'', ''winrar'', ''gzip'', ''bzip2'', ''flac'']"

text \<open>The loop \<open>for tool in all_tools\<close>, with the results and the events so far.\<close>

fun benchmark_loop ::
  "world \<Rightarrow> string \<Rightarrow> nat \<Rightarrow> string list \<Rightarrow> benchmark_results \<Rightarrow> event list \<Rightarrow>
   (error + benchmark_results) \<times> event list" where
  "benchmark_loop w file_path original_size [] results evs = (Inr results, evs)"
| "benchmark_loop w file_path original_size (tool # tools) results evs =
     (let ext = strip_dots (lower (snd (splitext file_path)))
      in if tool = ''flac'' \<and> ext \<noteq> ''.wav'' then
           benchmark_loop w file_path original_size tools
             \<lparr>ratios = dict_set (ratios results) tool 0,
              sizes = dict_set (sizes results) tool (real original_size)\<rparr> evs
         else
           (case run_single_compression w tool file_path of
              (Inl e, evs') \<Rightarrow> (Inl e, evs @ evs')
            | (Inr (ratio, _, _), evs') \<Rightarrow>
                (let size = (if ratio > 0 then real original_size / ratio
                             else real original_size)
                 in benchmark_loop w file_path original_size tools
                      \<lparr>ratios = dict_set (ratios results) tool ratio,
                       sizes = dict_set (sizes results) tool size\<rparr> (evs @ evs'))))"

text \<open>
  \<open>run_full_benchmark\<close> up to the end of the loop: the result is \<open>benchmark_results\<close>, from
  which the source then draws the chart and prints the table. The recommended tool only
  colours a bar of the chart.
\<close>

definition run_full_benchmark ::
  "world \<Rightarrow> string \<Rightarrow> string \<Rightarrow> (error + benchmark_results) \<times> event list" where
  "run_full_benchmark w file_path recommended_tool =
     (case getsize w file_path of
        Inl e \<Rightarrow> (Inl e, [])
      | Inr original_size \<Rightarrow>
          benchmark_loop w file_path original_size all_tools \<lparr>ratios = [], sizes = []\<rparr> [])"

section \<open>Prediction\<close>







section \<open>Readable files and an example environment\<close>


text \<open>
  A small file system and an environment around it, for evaluating the functions: every
  tool is on the search path under \<open>/usr/bin\<close>, every tool run exits with status 0 and leaves
  an output file of 30 bytes, and the imaging, audio and PDF libraries reject every file.
\<close>

definition example_files :: "string \<rightharpoonup> fs_file" where
  "example_files =
     map_of
       [(''notes.txt'', \<lparr>content = [104, 105, 10, 104, 105, 10], can_open = True, read_fault = None\<rparr>),
        (''aaaa.txt'', \<lparr>content = [97, 97, 97, 97], can_open = True, read_fault = None\<rparr>),
        (''empty.txt'', \<lparr>content = [], can_open = True, read_fault = None\<rparr>),
        (''song.wav'',
         \<lparr>content = [82, 73, 70, 70, 4, 0, 0, 0, 87, 65, 86, 69], can_open = True, read_fault = None\<rparr>),
        (''x.exe'', \<lparr>content = [77, 90], can_open = True, read_fault = None\<rparr>)]"

definition example_world :: world where
  "example_world =
     \<lparr>files = example_files,
      image_open = (\<lambda>p. Inl (LibraryError ''cannot identify image file'')),
      PYDUB_AVAILABLE = False,
      from_wav = (\<lambda>p. Inl (LibraryError ''could not decode'')),
      readlines = (\<lambda>p. if p = ''notes.txt''
                          then Inr [[CHR ''h'', CHR ''i'', CHR 0x0A], [CHR ''h'', CHR ''i'', CHR 0x0A]]
                          else Inl (OSError ''No such file or directory'')),
      PYMUPDF_AVAILABLE = False,
      fitz_page_count = (\<lambda>p. Inl (LibraryError ''cannot open document'')),
      which = (\<lambda>c. Some (''/usr/bin/'' @ c)),
      temp_dir = ''/tmp/tmpdir'',
      temp_dir_error = None,
      cleanup_error = None,
      copyfile = (\<lambda>src dst. Inr ()),
      subprocess_run = (\<lambda>cmd cwd. Inr 0),
      output_size = (\<lambda>cmd output_path. Some 30),
      time_time = (\<lambda>n. real n)\<rparr>"


declare count_chunks.simps [simp del]
declare splitext_scan.simps [simp del]
declare scale_up.simps [simp del]
declare scale_down.simps [simp del]

section \<open>The byte counter\<close>





















section \<open>Float division\<close>











section \<open>Universal features\<close>




lemma bd_get_dist:
  "i < 256 \<Longrightarrow> bd_get (map (\<lambda>i. (i, g i)) [0..<256]) i = g i"
proof -
  assume "i < 256"
  then have "map_of (map (\<lambda>i. (i, g i)) [0..<256]) i = Some (g i)"
    by (simp add: map_of_map_restrict)
  then show ?thesis by (simp add: bd_get_def)
qed



lemma example_notes:
  "files example_world ''notes.txt''
   = Some \<lparr>content = [104, 105, 10, 104, 105, 10], can_open = True, read_fault = None\<rparr>"
  by (simp add: example_world_def example_files_def)

lemma example_empty:
  "files example_world ''empty.txt'' = Some \<lparr>content = [], can_open = True, read_fault = None\<rparr>"
  by (simp add: example_world_def example_files_def)













section \<open>The feature vector\<close>

lemma universal_returns: "\<exists>fs ent bd. get_universal_features w file_path = Inr (fs, ent, bd)"
  by (cases "get_universal_features_try w file_path")
     (auto simp: get_universal_features_def)

lemma text_returns: "\<exists>t. get_text_features w file_path = Inr t"
  by (simp add: get_text_features_def split: sum.splits)

lemma pdf_returns: "\<exists>pc. get_pdf_features w file_path = Inr pc"
  by (simp add: get_pdf_features_def split: sum.splits)

lemma image_returns: "\<exists>wd h ci bdi. get_image_features w file_path = Inr (wd, h, ci, bdi)"
  by (simp add: get_image_features_def split: sum.splits prod.splits)

lemma audio_returns: "\<exists>ds sr ca bda. get_audio_features w file_path = Inr (ds, sr, ca, bda)"
proof -
  have "\<exists>r. get_audio_features w file_path = Inr r"
    by (cases "from_wav w file_path") (simp_all add: get_audio_features_def del: split_paired_Ex)
  then obtain r where r: "get_audio_features w file_path = Inr r"
    by blast
  obtain ds sr ca bda where "r = (ds, sr, ca, bda)"
    by (cases r) auto
  with r show ?thesis by blast
qed

lemma type_features_cases:
  "(ext \<in> set [''txt'', ''csv'', ''json''] \<and>
      (\<exists>t. get_text_features w file_path = Inr t
           \<and> type_features w ext file_path = Inr (t, 0, 0, 0, 0, 0, 0, 0, 0, 0)))
   \<or> (ext = ''pdf'' \<and>
      (\<exists>pc. get_pdf_features w file_path = Inr pc
           \<and> type_features w ext file_path = Inr (0, pc, 0, 0, 0, 0, 0, 0, 0, 0)))
   \<or> (ext \<in> set [''jpg'', ''jpeg'', ''png''] \<and>
      (\<exists>wd h ci bdi. get_image_features w file_path = Inr (wd, h, ci, bdi)
           \<and> type_features w ext file_path = Inr (0, 0, wd, h, ci, bdi, 0, 0, 0, 0)))
   \<or> (ext = ''wav'' \<and>
      (\<exists>ds sr ca bda. get_audio_features w file_path = Inr (ds, sr, ca, bda)
           \<and> type_features w ext file_path = Inr (0, 0, 0, 0, 0, 0, ds, sr, ca, bda)))
   \<or> (ext \<notin> set [''txt'', ''csv'', ''json'', ''pdf'', ''jpg'', ''jpeg'', ''png'', ''wav'']
      \<and> type_features w ext file_path = Inr (0, 0, 0, 0, 0, 0, 0, 0, 0, 0))"
proof -
  obtain t where t: "get_text_features w file_path = Inr t"
    using text_returns by blast
  obtain pc where pc: "get_pdf_features w file_path = Inr pc"
    using pdf_returns by blast
  obtain wd h ci bdi where im: "get_image_features w file_path = Inr (wd, h, ci, bdi)"
    using image_returns by blast
  obtain ds sr ca bda where au: "get_audio_features w file_path = Inr (ds, sr, ca, bda)"
    using audio_returns by blast
  show ?thesis
    unfolding type_features_def t pc im au by auto
qed



lemma ext_song: "strip_dots (lower (snd (splitext ''song.wav''))) = ''wav''"
  by code_simp

lemma ext_upper: "lower (snd (splitext ''/data/My.Report.PDF'')) = ''.pdf''"
  by code_simp

lemma ext_hidden: "splitext ''/home/u/.bashrc'' = (''/home/u/.bashrc'', '''')"
  by code_simp



lemma compile_returns:
  "\<exists>raw_features insights.
     compile_feature_vector w file_path = Inr (raw_features, insights) \<and> length raw_features = 268"
proof -
  obtain fs ent bd where u: "get_universal_features w file_path = Inr (fs, ent, bd)"
    using universal_returns by blast
  obtain tf where tf: "type_features w (strip_dots (lower (snd (splitext file_path)))) file_path = Inr tf"
    using type_features_cases[of "strip_dots (lower (snd (splitext file_path)))" w file_path]
    by blast
  obtain all pc wd h ci bdi ds sr ca bda where "tf = (all, pc, wd, h, ci, bdi, ds, sr, ca, bda)"
    by (cases tf) auto
  with u tf show ?thesis
    by (simp add: compile_feature_vector_def Let_def)
qed

text \<open>
  Claim C8. Feature extraction never propagates an error: \<open>get_universal_features\<close> always
  returns, with the all-zero result whenever the size lookup, the opening or a read of the
  file fails; the image, audio, text and PDF extractors always return, with zeros when their
  library is not available or fails on the file; and \<open>compile_feature_vector\<close> always
  returns a vector of 268 entries with its insights.
\<close>

theorem feature_extraction_never_raises:
  "(\<exists>r. get_universal_features w file_path = Inr r)
   \<and> (\<forall>e. get_universal_features_try w file_path = Inl e \<longrightarrow>
          get_universal_features w file_path = Inr (0, 0, zero_dist))
   \<and> (files w file_path = None \<longrightarrow> get_universal_features w file_path = Inr (0, 0, zero_dist))
   \<and> (\<forall>f. files w file_path = Some f \<and> (\<not> can_open f \<or> read_fault f = Some 0) \<longrightarrow>
          get_universal_features w file_path = Inr (0, 0, zero_dist))
   \<and> (\<forall>i < 256. bd_get zero_dist i = 0)
   \<and> (\<exists>r. get_image_features w file_path = Inr r)
   \<and> (\<forall>e. image_open w file_path = Inl e \<longrightarrow> get_image_features w file_path = Inr (0, 0, 0, 0))
   \<and> (\<exists>r. get_audio_features w file_path = Inr r)
   \<and> (\<not> PYDUB_AVAILABLE w \<longrightarrow> get_audio_features w file_path = Inr (0, 0, 0, 0))
   \<and> (\<forall>e. from_wav w file_path = Inl e \<longrightarrow> get_audio_features w file_path = Inr (0, 0, 0, 0))
   \<and> (\<exists>r. get_text_features w file_path = Inr r)
   \<and> (\<forall>e. readlines w file_path = Inl e \<longrightarrow> get_text_features w file_path = Inr 0)
   \<and> (\<exists>r. get_pdf_features w file_path = Inr r)
   \<and> (\<not> PYMUPDF_AVAILABLE w \<longrightarrow> get_pdf_features w file_path = Inr 0)
   \<and> (\<forall>e. fitz_page_count w file_path = Inl e \<longrightarrow> get_pdf_features w file_path = Inr 0)
   \<and> (\<exists>raw_features insights.
          compile_feature_vector w file_path = Inr (raw_features, insights)
          \<and> length raw_features = 268)"
proof (intro conjI)
  show "\<exists>r. get_universal_features w file_path = Inr r"
    using universal_returns by blast
  show "\<forall>e. get_universal_features_try w file_path = Inl e \<longrightarrow>
          get_universal_features w file_path = Inr (0, 0, zero_dist)"
    by (simp add: get_universal_features_def)
  show "files w file_path = None \<longrightarrow> get_universal_features w file_path = Inr (0, 0, zero_dist)"
    by (simp add: get_universal_features_def get_universal_features_try_def getsize_def)
  show "\<forall>f. files w file_path = Some f \<and> (\<not> can_open f \<or> read_fault f = Some 0) \<longrightarrow>
          get_universal_features w file_path = Inr (0, 0, zero_dist)"
  proof (intro allI impI)
    fix f assume a: "files w file_path = Some f \<and> (\<not> can_open f \<or> read_fault f = Some 0)"
    have "count_chunks \<lparr>rest = content f, fault = Some 0\<rparr> [] = Inl (OSError ''Input/output error'')"
      by (subst count_chunks.simps) (simp add: f_read_def)
    then have "get_universal_features_try w file_path = Inr (0, 0, zero_dist)
               \<or> (\<exists>e. get_universal_features_try w file_path = Inl e)"
      using a by (auto simp: get_universal_features_try_def getsize_def open_rb_def)
    then show "get_universal_features w file_path = Inr (0, 0, zero_dist)"
      by (auto simp: get_universal_features_def)
  qed
  show "\<forall>i < 256. bd_get zero_dist i = 0"
    unfolding zero_dist_def using bd_get_dist[where g = "\<lambda>i. 0"] by blast
  show "\<exists>r. get_image_features w file_path = Inr r"
    using image_returns by blast
  show "\<forall>e. image_open w file_path = Inl e \<longrightarrow> get_image_features w file_path = Inr (0, 0, 0, 0)"
    by (auto simp: get_image_features_def)
  show "\<exists>r. get_audio_features w file_path = Inr r"
    using audio_returns by blast
  show "\<not> PYDUB_AVAILABLE w \<longrightarrow> get_audio_features w file_path = Inr (0, 0, 0, 0)"
    by (simp add: get_audio_features_def)
  show "\<forall>e. from_wav w file_path = Inl e \<longrightarrow> get_audio_features w file_path = Inr (0, 0, 0, 0)"
    by (auto simp: get_audio_features_def)
  show "\<exists>r. get_text_features w file_path = Inr r"
    using text_returns by blast
  show "\<forall>e. readlines w file_path = Inl e \<longrightarrow> get_text_features w file_path = Inr 0"
    by (auto simp: get_text_features_def)
  show "\<exists>r. get_pdf_features w file_path = Inr r"
    using pdf_returns by blast
  show "\<not> PYMUPDF_AVAILABLE w \<longrightarrow> get_pdf_features w file_path = Inr 0"
    by (simp add: get_pdf_features_def)
  show "\<forall>e. fitz_page_count w file_path = Inl e \<longrightarrow> get_pdf_features w file_path = Inr 0"
    by (auto simp: get_pdf_features_def)
  show "\<exists>raw_features insights.
          compile_feature_vector w file_path = Inr (raw_features, insights)
          \<and> length raw_features = 268"
    using compile_returns by blast
qed

theorem feature_extraction_never_raises_witness:
  "get_universal_features example_world ''missing.png'' = Inr (0, 0, zero_dist)
   \<and> get_image_features example_world ''missing.png'' = Inr (0, 0, 0, 0)
   \<and> get_audio_features example_world ''missing.png'' = Inr (0, 0, 0, 0)
   \<and> get_text_features example_world ''missing.png'' = Inr 0
   \<and> get_pdf_features example_world ''missing.png'' = Inr 0
   \<and> (\<exists>raw_features insights.
         compile_feature_vector example_world ''missing.png'' = Inr (raw_features, insights)
         \<and> length raw_features = 268)
   \<and> get_universal_features
        (example_world\<lparr>files := [''bad.bin'' \<mapsto>
           \<lparr>content = [1, 2, 3], can_open = True, read_fault = Some 0\<rparr>]\<rparr>) ''bad.bin''
      = Inr (0, 0, zero_dist)"
proof -
  let ?bad = "\<lparr>content = [1, 2, 3], can_open = True, read_fault = Some 0\<rparr> :: fs_file"
  let ?w = "example_world\<lparr>files := [''bad.bin'' \<mapsto> ?bad]\<rparr>"
  have m: "files example_world ''missing.png'' = None"
    by (simp add: example_world_def example_files_def)
  have lib: "image_open example_world ''missing.png'' = Inl (LibraryError ''cannot identify image file'')"
    "\<not> PYDUB_AVAILABLE example_world" "\<not> PYMUPDF_AVAILABLE example_world"
    "readlines example_world ''missing.png'' = Inl (OSError ''No such file or directory'')"
    by (simp_all add: example_world_def)
  have b: "files ?w ''bad.bin'' = Some ?bad \<and> (\<not> can_open ?bad \<or> read_fault ?bad = Some 0)"
    by simp
  note t1 = feature_extraction_never_raises[of example_world "''missing.png''"]
  note t2 = feature_extraction_never_raises[of ?w "''bad.bin''"]
  have "get_universal_features ?w ''bad.bin'' = Inr (0, 0, zero_dist)"
    using t2 b by blast
  moreover have "get_universal_features example_world ''missing.png'' = Inr (0, 0, zero_dist)"
    using t1 m by blast
  moreover have "get_image_features example_world ''missing.png'' = Inr (0, 0, 0, 0)"
    using t1 lib(1) by blast
  moreover have "get_audio_features example_world ''missing.png'' = Inr (0, 0, 0, 0)"
    using t1 lib(2) by blast
  moreover have "get_text_features example_world ''missing.png'' = Inr 0"
    using t1 lib(4) by blast
  moreover have "get_pdf_features example_world ''missing.png'' = Inr 0"
    using t1 lib(3) by blast
  moreover have "\<exists>raw_features insights.
         compile_feature_vector example_world ''missing.png'' = Inr (raw_features, insights)
         \<and> length raw_features = 268"
    using t1 by blast
  ultimately show ?thesis by blast
qed

section \<open>Single compression runs\<close>

lemma getsize_existing: "files w file_path = Some f \<Longrightarrow> getsize w file_path = Inr (length (content f))"
  by (simp add: getsize_def)

text \<open>
  Claim C9. For every tool name, \<open>run_single_compression\<close> on a zero-byte input file returns
  ratio 1.0, elapsed 0.0 and no output path, and does nothing to the outside world: no
  executable is looked up and none is run.
\<close>

theorem zero_byte_short_circuit:
  assumes "files w file_path = Some f" and "content f = []"
  shows "run_single_compression w tool file_path = (Inr (1, 0, None), [])"
  using assms by (simp add: run_single_compression_def getsize_def)

theorem zero_byte_short_circuit_witness:
  "run_single_compression example_world ''gzip'' ''empty.txt'' = (Inr (1, 0, None), [])
   \<and> run_single_compression example_world ''no-such-tool'' ''empty.txt'' = (Inr (1, 0, None), [])"
  using zero_byte_short_circuit[OF example_empty, of "''gzip''"]
        zero_byte_short_circuit[OF example_empty, of "''no-such-tool''"]
  by simp

lemma run_gzip_notes:
  "run_single_compression example_world ''gzip'' ''notes.txt''
   = (Inr (1 / 5, 1, Some ''compressed_output.gzip''),
      [Which ''gzip'',
       CopyFile ''notes.txt'' ''/tmp/tmpdir/notes.txt'',
       Run [''/usr/bin/gzip'', ''-9'', ''/tmp/tmpdir/notes.txt''] ''/tmp/tmpdir'',
       CopyFile ''/tmp/tmpdir/notes.txt.gz'' ''compressed_output.gzip''])"
  by (simp add: run_single_compression_def run_single_compression_try_def run_tool_def tool_command_def
      run_checked_def getsize_def example_world_def example_files_def COMPRESSOR_PATHS_def
      basename_def path_join_def rfind_def Let_def)

text \<open>
  Claim C3 says that the returned ratio is at least 1 in all cases. It is not: a six-byte
  file whose compressed output has 30 bytes gets the ratio 1/5.
\<close>

theorem compressed_output_larger_counterexample:
  "fst (run_single_compression example_world ''gzip'' ''notes.txt'')
     = Inr (1 / 5, 1, Some ''compressed_output.gzip'')
   \<and> \<not> (1 \<le> (1 / 5 :: real))"
  by (simp add: run_gzip_notes)

lemma try_result:
  assumes "run_single_compression_try w tool file_path executable original_size
           = (Inr (ratio, elapsed, out), evs)"
  shows "\<exists>comp_size output_path evs'.
           run_tool w tool file_path executable = (Inr (comp_size, output_path), evs')
           \<and> ratio = (if comp_size > 0 then real original_size / real comp_size else 1)
           \<and> out = Some (''compressed_output.'' @ tool)"
proof (cases "run_tool w tool file_path executable")
  case (Pair res evs')
  show ?thesis
  proof (cases res)
    case (Inl e)
    with Pair assms show ?thesis
      by (simp add: run_single_compression_try_def)
  next
    case (Inr r)
    obtain comp_size output_path where r: "r = (comp_size, output_path)"
      by (cases r) auto
    show ?thesis
    proof (cases "copyfile w output_path (''compressed_output.'' @ tool)")
      case (Inl e)
      with Pair Inr r assms show ?thesis
        by (simp add: run_single_compression_try_def Let_def)
    next
      case (Inr u)
      with Pair \<open>res = Inr r\<close> r assms show ?thesis
        by (simp add: run_single_compression_try_def Let_def)
    qed
  qed
qed

text \<open>
  Claim C3, as amended. Whenever \<open>run_single_compression\<close> returns, the ratio is positive;
  it is exactly 1 when no output path is returned (the tool is missing or failed, or the
  input is empty); and when an output path is returned it is the original size divided by
  the size of the compressed output if that size is positive, and 1 if it is 0. The ratio
  is below 1 when the compressed output is larger than the original.
\<close>

theorem run_single_compression_ratio:
  assumes "run_single_compression w tool file_path = (Inr (ratio, elapsed, out), evs)"
  shows "0 < ratio
       \<and> (out = None \<longrightarrow> ratio = 1)
       \<and> (out \<noteq> None \<longrightarrow>
            (\<exists>original_size tool_cmd_path executable comp_size output_path evs'.
               getsize w file_path = Inr original_size
               \<and> map_of COMPRESSOR_PATHS tool = Some tool_cmd_path
               \<and> which w tool_cmd_path = Some executable
               \<and> run_tool w tool file_path executable = (Inr (comp_size, output_path), evs')
               \<and> ratio = (if comp_size > 0 then real original_size / real comp_size else 1)))"
proof (cases "getsize w file_path")
  case (Inl e)
  with assms show ?thesis
    by (simp add: run_single_compression_def)
next
  case (Inr original_size)
  note sz = Inr
  show ?thesis
  proof (cases "original_size = 0")
    case True
    with sz assms show ?thesis
      by (auto simp: run_single_compression_def)
  next
    case False
    note pos = False
    show ?thesis
    proof (cases "map_of COMPRESSOR_PATHS tool")
      case None
      with sz pos assms show ?thesis
        by (simp add: run_single_compression_def)
    next
      case (Some tool_cmd_path)
      note cp = Some
      show ?thesis
      proof (cases "which w tool_cmd_path")
        case None
        with sz pos cp assms show ?thesis
          by (auto simp: run_single_compression_def)
      next
        case (Some executable)
        note wh = Some
        show ?thesis
        proof (cases "executable = []")
          case True
          with sz pos cp wh assms show ?thesis
            by (auto simp: run_single_compression_def)
        next
          case False
          note ex = False
          obtain res evs0 where
            tr: "run_single_compression_try w tool file_path executable original_size = (res, evs0)"
            by (cases "run_single_compression_try w tool file_path executable original_size")
          have td: "temp_dir_error w = None"
            using sz pos cp wh ex assms
            by (cases "temp_dir_error w") (simp_all add: run_single_compression_def)
          have cl: "cleanup_error w = None"
            using sz pos cp wh ex td tr assms
            by (cases "cleanup_error w") (simp_all add: run_single_compression_def)
          show ?thesis
          proof (cases res)
            case (Inl e)
            with sz pos cp wh ex td cl tr assms show ?thesis
              by (auto simp: run_single_compression_def)
          next
            case (Inr r)
            with sz pos cp wh ex td cl tr assms have r: "r = (ratio, elapsed, out)"
              by (auto simp: run_single_compression_def)
            from try_result[OF tr[unfolded Inr r]]
            obtain comp_size output_path evs' where
              rt: "run_tool w tool file_path executable = (Inr (comp_size, output_path), evs')"
              and ra: "ratio = (if comp_size > 0 then real original_size / real comp_size else 1)"
              and ou: "out = Some (''compressed_output.'' @ tool)"
              by blast
            have "0 < ratio"
              using ra pos by simp
            with sz cp wh rt ra ou show ?thesis
              by blast
          qed
        qed
      qed
    qed
  qed
qed

theorem run_single_compression_ratio_witness:
  "(0::real) < 1 / 5
   \<and> (\<exists>original_size tool_cmd_path executable comp_size output_path evs'.
         getsize example_world ''notes.txt'' = Inr original_size
         \<and> map_of COMPRESSOR_PATHS ''gzip'' = Some tool_cmd_path
         \<and> which example_world tool_cmd_path = Some executable
         \<and> run_tool example_world ''gzip'' ''notes.txt'' executable
             = (Inr (comp_size, output_path), evs')
         \<and> (1 / 5 :: real) = (if comp_size > 0 then real original_size / real comp_size else 1))"
  using run_single_compression_ratio[OF run_gzip_notes] by simp

text \<open>
  Claim C5 says that \<open>run_single_compression\<close> never raises. The size lookup is outside the
  \<open>try\<close> block: on a path that is no file the call raises.
\<close>

theorem missing_input_raises_counterexample:
  "run_single_compression example_world ''gzip'' ''missing.txt''
   = (Inl (OSError ''No such file or directory''), [])"
  by (simp add: run_single_compression_def getsize_def example_world_def example_files_def)

lemma known_tool_path:
  "tool \<in> set all_tools \<Longrightarrow> \<exists>tool_cmd_path. map_of COMPRESSOR_PATHS tool = Some tool_cmd_path"
  by (auto simp: all_tools_def COMPRESSOR_PATHS_def)

lemma run_checked_fail:
  "subprocess_run w cmd cwd \<noteq> Inr 0 \<Longrightarrow> \<exists>e. run_checked w cmd cwd = Inl e"
  by (cases "subprocess_run w cmd cwd") (auto simp: run_checked_def)

lemma tool_command_runs:
  "tool \<in> set all_tools \<Longrightarrow>
   \<exists>output_path cmd. tool_command tool executable tmp base_name temp_input_path
                     = (output_path, cmd, True)"
  by (auto simp: all_tools_def tool_command_def)

lemma run_tool_fails:
  assumes "tool \<in> set all_tools"
    and tc: "tool_command tool executable (temp_dir w) (basename file_path)
               (path_join (temp_dir w) (basename file_path)) = (output_path, cmd, runs)"
    and bad: "subprocess_run w cmd (temp_dir w) \<noteq> Inr 0 \<or> output_size w cmd output_path = None"
  shows "\<exists>e evs. run_tool w tool file_path executable = (Inl e, evs)"
proof (cases "copyfile w file_path (path_join (temp_dir w) (basename file_path))")
  case (Inl e)
  then show ?thesis by (simp add: run_tool_def Let_def)
next
  case copied: (Inr u)
  have runs: "runs"
    using tool_command_runs[OF assms(1), of executable "temp_dir w" "basename file_path"
        "path_join (temp_dir w) (basename file_path)"] tc
    by auto
  show ?thesis
  proof (cases "run_checked w cmd (temp_dir w)")
    case (Inl e)
    with copied tc runs show ?thesis
      by (simp add: run_tool_def Let_def)
  next
    case ran: (Inr u')
    have "subprocess_run w cmd (temp_dir w) = Inr 0"
    proof (rule ccontr)
      assume "subprocess_run w cmd (temp_dir w) \<noteq> Inr 0"
      then obtain e where "run_checked w cmd (temp_dir w) = Inl e"
        using run_checked_fail by blast
      with ran show False by simp
    qed
    with bad have "output_size w cmd output_path = None"
      by simp
    with copied tc runs ran show ?thesis
      by (simp add: run_tool_def Let_def)
  qed
qed

lemma try_fails:
  "run_tool w tool file_path executable = (Inl e, evs) \<Longrightarrow>
   run_single_compression_try w tool file_path executable original_size = (Inl e, evs)"
  by (simp add: run_single_compression_try_def)

lemma single_cases:
  assumes "files w file_path = Some f" and "map_of COMPRESSOR_PATHS tool = Some tool_cmd_path"
  shows "(content f = [] \<and> run_single_compression w tool file_path = (Inr (1, 0, None), []))
       \<or> ((which w tool_cmd_path = None \<or> which w tool_cmd_path = Some [])
           \<and> run_single_compression w tool file_path = (Inr (1, 0, None), [Which tool_cmd_path]))
       \<or> (\<exists>executable res evs.
             content f \<noteq> [] \<and> which w tool_cmd_path = Some executable \<and> executable \<noteq> []
             \<and> run_single_compression_try w tool file_path executable (length (content f))
                 = (res, evs)
             \<and> (temp_dir_error w = None \<and> cleanup_error w = None \<longrightarrow>
                  run_single_compression w tool file_path =
                    (case res of
                       Inl e \<Rightarrow> Inr (1, time_time w 1 - time_time w 0, None)
                     | Inr r \<Rightarrow> Inr r,
                     Which tool_cmd_path # evs)))"
proof (cases "content f = []")
  case True
  with assms show ?thesis
    by (simp add: run_single_compression_def getsize_def)
next
  case False
  note ne = False
  show ?thesis
  proof (cases "which w tool_cmd_path")
    case None
    with ne assms show ?thesis
      by (simp add: run_single_compression_def getsize_def)
  next
    case (Some executable)
    show ?thesis
    proof (cases "executable = []")
      case True
      with Some ne assms show ?thesis
        by (simp add: run_single_compression_def getsize_def)
    next
      case False
      obtain res evs where
        tr: "run_single_compression_try w tool file_path executable (length (content f)) = (res, evs)"
        by (cases "run_single_compression_try w tool file_path executable (length (content f))")
      have "temp_dir_error w = None \<and> cleanup_error w = None \<longrightarrow>
              run_single_compression w tool file_path =
                 (case res of
                    Inl e \<Rightarrow> Inr (1, time_time w 1 - time_time w 0, None)
                  | Inr r \<Rightarrow> Inr r,
                  Which tool_cmd_path # evs)"
        using False Some ne assms tr
        by (cases res) (simp_all add: run_single_compression_def getsize_def)
      with False Some ne tr show ?thesis
        by blast
    qed
  qed
qed

lemma single_returns:
  assumes "files w file_path = Some f" and "tool \<in> set all_tools"
    and "temp_dir_error w = None" and "cleanup_error w = None"
  shows "\<exists>r evs. run_single_compression w tool file_path = (Inr r, evs)"
proof -
  obtain tool_cmd_path where cp: "map_of COMPRESSOR_PATHS tool = Some tool_cmd_path"
    using known_tool_path[OF assms(2)] by blast
  from single_cases[OF assms(1) cp] show ?thesis
  proof (elim disjE conjE exE)
    fix executable res evs
    assume "temp_dir_error w = None \<and> cleanup_error w = None \<longrightarrow>
            run_single_compression w tool file_path =
                 (case res of
                    Inl e \<Rightarrow> Inr (1, time_time w 1 - time_time w 0, None)
                  | Inr r \<Rightarrow> Inr r,
                  Which tool_cmd_path # evs)"
    with assms(3,4) show ?thesis by (cases res) auto
  qed auto
qed

lemma single_fails_with_tool:
  assumes "files w file_path = Some f"
    and cp: "map_of COMPRESSOR_PATHS tool = Some tool_cmd_path"
    and wh: "which w tool_cmd_path = Some executable"
    and rt: "run_tool w tool file_path executable = (Inl e, evs)"
    and "temp_dir_error w = None" and "cleanup_error w = None"
  shows "\<exists>t. fst (run_single_compression w tool file_path) = Inr (1, t, None)"
  using single_cases[OF assms(1) cp]
proof (elim disjE conjE exE)
  fix executable' res evs'
  assume w': "which w tool_cmd_path = Some executable'"
    and tr: "run_single_compression_try w tool file_path executable' (length (content f))
                 = (res, evs')"
    and rs: "temp_dir_error w = None \<and> cleanup_error w = None \<longrightarrow>
             run_single_compression w tool file_path =
                 (case res of
                    Inl e \<Rightarrow> Inr (1, time_time w 1 - time_time w 0, None)
                  | Inr r \<Rightarrow> Inr r,
                  Which tool_cmd_path # evs')"
  from w' wh have "executable' = executable"
    by simp
  with try_fails[OF rt, of "length (content f)"] tr have "res = Inl e"
    by simp
  with rs assms(5,6) show ?thesis by simp
qed auto

lemma temp_dir_failure_raises:
  assumes "files w file_path = Some f" and "content f \<noteq> []"
    and "map_of COMPRESSOR_PATHS tool = Some tool_cmd_path"
    and "which w tool_cmd_path = Some executable" and "executable \<noteq> []"
    and "temp_dir_error w = Some e"
  shows "run_single_compression w tool file_path = (Inl e, [Which tool_cmd_path])"
  using assms by (simp add: run_single_compression_def getsize_def)

lemma cleanup_failure_raises:
  assumes "files w file_path = Some f" and "content f \<noteq> []"
    and "map_of COMPRESSOR_PATHS tool = Some tool_cmd_path"
    and "which w tool_cmd_path = Some executable" and "executable \<noteq> []"
    and "temp_dir_error w = None" and "cleanup_error w = Some e"
  shows "fst (run_single_compression w tool file_path) = Inl e"
  using assms
  by (cases "run_single_compression_try w tool file_path executable (length (content f))")
     (simp add: run_single_compression_def getsize_def)

lemma loop_returns:
  assumes "files w file_path = Some f" and "set tools \<subseteq> set all_tools"
    and "temp_dir_error w = None" and "cleanup_error w = None"
  shows "\<exists>r evs'. benchmark_loop w file_path original_size tools results evs = (Inr r, evs')"
  using assms(2)
proof (induction tools arbitrary: results evs)
  case Nil
  then show ?case by simp
next
  case (Cons tool tools)
  then have t: "tool \<in> set all_tools" and ts: "set tools \<subseteq> set all_tools"
    by auto
  obtain r evs1 where s: "run_single_compression w tool file_path = (Inr r, evs1)"
    using single_returns[OF assms(1) t assms(3,4)] by blast
  obtain ratio elapsed out where r: "r = (ratio, elapsed, out)"
    by (cases r) auto
  show ?case
    using Cons.IH[OF ts] s r by (simp add: Let_def)
qed

text \<open>
  Claim C5, as amended. For every existing input file and every tool of the fixed six-tool
  set: when the executable is not on the search path, \<open>run_single_compression\<close> returns
  ratio 1.0, elapsed 0.0 and no output path; and when the temporary directory can be created
  and removed, it does not raise, and returns ratio 1.0 and no output path if the command of
  the tool fails (an exit status other than 0, a timeout or another error of the run) or
  leaves no output file, so that the sweep of \<open>run_full_benchmark\<close> over the tools
  completes. (An error of creating or removing the temporary directory is outside the
  \<open>try\<close> block and propagates: \<open>temp_dir_failure_raises\<close>, \<open>cleanup_failure_raises\<close>.)
\<close>

theorem run_single_compression_tool_failures_caught:
  assumes "files w file_path = Some f" and "tool \<in> set all_tools"
  shows "((\<exists>tool_cmd_path. map_of COMPRESSOR_PATHS tool = Some tool_cmd_path
                             \<and> which w tool_cmd_path = None) \<longrightarrow>
            fst (run_single_compression w tool file_path) = Inr (1, 0, None))
       \<and> (temp_dir_error w = None \<and> cleanup_error w = None \<longrightarrow>
            (\<exists>r. fst (run_single_compression w tool file_path) = Inr r)
            \<and> (\<forall>tool_cmd_path executable output_path cmd runs.
                  map_of COMPRESSOR_PATHS tool = Some tool_cmd_path
                  \<and> which w tool_cmd_path = Some executable
                  \<and> tool_command tool executable (temp_dir w) (basename file_path)
                      (path_join (temp_dir w) (basename file_path)) = (output_path, cmd, runs)
                  \<and> (subprocess_run w cmd (temp_dir w) \<noteq> Inr 0
                     \<or> output_size w cmd output_path = None) \<longrightarrow>
                  (\<exists>t. fst (run_single_compression w tool file_path) = Inr (1, t, None)))
            \<and> (\<exists>r. fst (run_full_benchmark w file_path recommended_tool) = Inr r))"
proof (intro conjI impI allI)
  assume "\<exists>tool_cmd_path. map_of COMPRESSOR_PATHS tool = Some tool_cmd_path
                           \<and> which w tool_cmd_path = None"
  then obtain tool_cmd_path where cp: "map_of COMPRESSOR_PATHS tool = Some tool_cmd_path"
    and wh: "which w tool_cmd_path = None"
    by blast
  from single_cases[OF assms(1) cp] wh
  show "fst (run_single_compression w tool file_path) = Inr (1, 0, None)"
    by auto
next
  assume "temp_dir_error w = None \<and> cleanup_error w = None"
  then show "\<exists>r. fst (run_single_compression w tool file_path) = Inr r"
    using single_returns[OF assms] by auto
next
  fix tool_cmd_path executable output_path cmd runs
  assume env: "temp_dir_error w = None \<and> cleanup_error w = None"
    and h: "map_of COMPRESSOR_PATHS tool = Some tool_cmd_path
            \<and> which w tool_cmd_path = Some executable
            \<and> tool_command tool executable (temp_dir w) (basename file_path)
                (path_join (temp_dir w) (basename file_path)) = (output_path, cmd, runs)
            \<and> (subprocess_run w cmd (temp_dir w) \<noteq> Inr 0
               \<or> output_size w cmd output_path = None)"
  from h obtain e evs where "run_tool w tool file_path executable = (Inl e, evs)"
    using run_tool_fails[OF assms(2), of executable w file_path output_path cmd runs] by blast
  with h env show "\<exists>t. fst (run_single_compression w tool file_path) = Inr (1, t, None)"
    using single_fails_with_tool[OF assms(1), of tool tool_cmd_path executable e evs] by blast
next
  assume "temp_dir_error w = None \<and> cleanup_error w = None"
  then show "\<exists>r. fst (run_full_benchmark w file_path recommended_tool) = Inr r"
    using loop_returns[OF assms(1) subset_refl, of "length (content f)"
        "\<lparr>ratios = [], sizes = []\<rparr>" "[]"] assms(1)
    by (auto simp: run_full_benchmark_def getsize_def)
qed

lemma zip_command_notes:
  "tool_command ''zip'' ''/usr/bin/zip'' ''/tmp/tmpdir'' (basename ''notes.txt'')
     (path_join ''/tmp/tmpdir'' (basename ''notes.txt''))
   = (''/tmp/tmpdir/output.zip'',
      [''/usr/bin/zip'', ''-9'', ''-j'', ''/tmp/tmpdir/output.zip'', ''notes.txt''], True)"
  by (simp add: tool_command_def basename_def path_join_def rfind_def)

lemma bzip2_command_notes:
  "tool_command ''bzip2'' ''/usr/bin/bzip2'' ''/tmp/tmpdir'' (basename ''notes.txt'')
     (path_join ''/tmp/tmpdir'' (basename ''notes.txt''))
   = (''/tmp/tmpdir/notes.txt.bz2'', [''/usr/bin/bzip2'', ''-9'', ''/tmp/tmpdir/notes.txt''], True)"
  by (simp add: tool_command_def basename_def path_join_def rfind_def)

theorem run_single_compression_tool_failures_caught_witness:
  "fst (run_single_compression (example_world\<lparr>which := (\<lambda>c. None)\<rparr>) ''gzip'' ''notes.txt'')
     = Inr (1, 0, None)
   \<and> (\<exists>t. fst (run_single_compression
                  (example_world\<lparr>subprocess_run :=
                     (\<lambda>cmd cwd. if hd cmd = ''/usr/bin/zip'' then Inr 2 else Inr 0)\<rparr>)
                  ''zip'' ''notes.txt'')
            = Inr (1, t, None))
   \<and> (\<exists>t. fst (run_single_compression
                  (example_world\<lparr>subprocess_run :=
                     (\<lambda>cmd cwd. if hd cmd = ''/usr/bin/zip'' then Inl TimeoutExpired else Inr 0)\<rparr>)
                  ''zip'' ''notes.txt'')
            = Inr (1, t, None))
   \<and> (\<exists>t. fst (run_single_compression
                  (example_world\<lparr>output_size :=
                     (\<lambda>cmd output_path. if output_path = ''/tmp/tmpdir/notes.txt.bz2'' then None
                                        else Some 30)\<rparr>)
                  ''bzip2'' ''notes.txt'')
            = Inr (1, t, None))
   \<and> (\<exists>r. fst (run_full_benchmark
                  (example_world\<lparr>subprocess_run := (\<lambda>cmd cwd. Inr 2)\<rparr>) ''notes.txt'' ''gzip'')
            = Inr r)"
proof -
  let ?f = "\<lparr>content = [104, 105, 10, 104, 105, 10], can_open = True, read_fault = None\<rparr> :: fs_file"
  let ?A = "example_world\<lparr>which := (\<lambda>c. None)\<rparr>"
  let ?B = "example_world\<lparr>subprocess_run :=
              (\<lambda>cmd cwd. if hd cmd = ''/usr/bin/zip'' then Inr 2 else Inr 0)\<rparr>"
  let ?C = "example_world\<lparr>subprocess_run :=
              (\<lambda>cmd cwd. if hd cmd = ''/usr/bin/zip'' then Inl TimeoutExpired else Inr 0)\<rparr>"
  let ?D = "example_world\<lparr>output_size :=
              (\<lambda>cmd output_path. if output_path = ''/tmp/tmpdir/notes.txt.bz2'' then None
                                 else Some 30)\<rparr>"
  let ?E = "example_world\<lparr>subprocess_run := (\<lambda>cmd cwd. Inr 2)\<rparr>"
  have fa: "files ?A ''notes.txt'' = Some ?f" and fb: "files ?B ''notes.txt'' = Some ?f"
    and fc: "files ?C ''notes.txt'' = Some ?f" and fd: "files ?D ''notes.txt'' = Some ?f"
    and fe: "files ?E ''notes.txt'' = Some ?f"
    by (simp_all add: example_notes)
  have tools: "''gzip'' \<in> set all_tools" "''zip'' \<in> set all_tools" "''bzip2'' \<in> set all_tools"
    by (simp_all add: all_tools_def)
  have env: "temp_dir_error ?B = None \<and> cleanup_error ?B = None"
    "temp_dir_error ?C = None \<and> cleanup_error ?C = None"
    "temp_dir_error ?D = None \<and> cleanup_error ?D = None"
    "temp_dir_error ?E = None \<and> cleanup_error ?E = None"
    by (simp_all add: example_world_def)
  have a: "\<exists>tool_cmd_path. map_of COMPRESSOR_PATHS ''gzip'' = Some tool_cmd_path
                            \<and> which ?A tool_cmd_path = None"
    by (simp add: COMPRESSOR_PATHS_def)
  have b: "map_of COMPRESSOR_PATHS ''zip'' = Some ''zip''
           \<and> which ?B ''zip'' = Some ''/usr/bin/zip''
           \<and> tool_command ''zip'' ''/usr/bin/zip'' (temp_dir ?B) (basename ''notes.txt'')
               (path_join (temp_dir ?B) (basename ''notes.txt''))
             = (''/tmp/tmpdir/output.zip'',
                [''/usr/bin/zip'', ''-9'', ''-j'', ''/tmp/tmpdir/output.zip'', ''notes.txt''], True)
           \<and> (subprocess_run ?B
                 [''/usr/bin/zip'', ''-9'', ''-j'', ''/tmp/tmpdir/output.zip'', ''notes.txt'']
                 (temp_dir ?B) \<noteq> Inr 0
              \<or> output_size ?B
                 [''/usr/bin/zip'', ''-9'', ''-j'', ''/tmp/tmpdir/output.zip'', ''notes.txt'']
                 ''/tmp/tmpdir/output.zip'' = None)"
    using zip_command_notes by (simp add: COMPRESSOR_PATHS_def example_world_def)
  have c: "map_of COMPRESSOR_PATHS ''zip'' = Some ''zip''
           \<and> which ?C ''zip'' = Some ''/usr/bin/zip''
           \<and> tool_command ''zip'' ''/usr/bin/zip'' (temp_dir ?C) (basename ''notes.txt'')
               (path_join (temp_dir ?C) (basename ''notes.txt''))
             = (''/tmp/tmpdir/output.zip'',
                [''/usr/bin/zip'', ''-9'', ''-j'', ''/tmp/tmpdir/output.zip'', ''notes.txt''], True)
           \<and> (subprocess_run ?C
                 [''/usr/bin/zip'', ''-9'', ''-j'', ''/tmp/tmpdir/output.zip'', ''notes.txt'']
                 (temp_dir ?C) \<noteq> Inr 0
              \<or> output_size ?C
                 [''/usr/bin/zip'', ''-9'', ''-j'', ''/tmp/tmpdir/output.zip'', ''notes.txt'']
                 ''/tmp/tmpdir/output.zip'' = None)"
    using zip_command_notes by (simp add: COMPRESSOR_PATHS_def example_world_def)
  have d: "map_of COMPRESSOR_PATHS ''bzip2'' = Some ''bzip2''
           \<and> which ?D ''bzip2'' = Some ''/usr/bin/bzip2''
           \<and> tool_command ''bzip2'' ''/usr/bin/bzip2'' (temp_dir ?D) (basename ''notes.txt'')
               (path_join (temp_dir ?D) (basename ''notes.txt''))
             = (''/tmp/tmpdir/notes.txt.bz2'',
                [''/usr/bin/bzip2'', ''-9'', ''/tmp/tmpdir/notes.txt''], True)
           \<and> (subprocess_run ?D [''/usr/bin/bzip2'', ''-9'', ''/tmp/tmpdir/notes.txt'']
                 (temp_dir ?D) \<noteq> Inr 0
              \<or> output_size ?D [''/usr/bin/bzip2'', ''-9'', ''/tmp/tmpdir/notes.txt'']
                 ''/tmp/tmpdir/notes.txt.bz2'' = None)"
    using bzip2_command_notes by (simp add: COMPRESSOR_PATHS_def example_world_def)
  have "fst (run_single_compression ?A ''gzip'' ''notes.txt'') = Inr (1, 0, None)"
    using run_single_compression_tool_failures_caught[OF fa tools(1), of "''gzip''"] a by blast
  moreover have "\<exists>t. fst (run_single_compression ?B ''zip'' ''notes.txt'') = Inr (1, t, None)"
    using run_single_compression_tool_failures_caught[OF fb tools(2), of "''gzip''"] env(1) b
    by blast
  moreover have "\<exists>t. fst (run_single_compression ?C ''zip'' ''notes.txt'') = Inr (1, t, None)"
    using run_single_compression_tool_failures_caught[OF fc tools(2), of "''gzip''"] env(2) c
    by blast
  moreover have "\<exists>t. fst (run_single_compression ?D ''bzip2'' ''notes.txt'') = Inr (1, t, None)"
    using run_single_compression_tool_failures_caught[OF fd tools(3), of "''gzip''"] env(3) d
    by blast
  moreover have "\<exists>r. fst (run_full_benchmark ?E ''notes.txt'' ''gzip'') = Inr r"
    using run_single_compression_tool_failures_caught[OF fe tools(1), of "''gzip''"] env(4)
    by blast
  ultimately show ?thesis by blast
qed

lemma strip_dots_head:
  "strip_dots s = [] \<or> hd (strip_dots s) \<noteq> CHR ''.''"
proof (cases "dropWhile (\<lambda>c. c = CHR ''.'') s")
  case Nil
  show ?thesis unfolding strip_dots_def Nil by simp
next
  case (Cons y ys)
  have y: "y \<noteq> CHR ''.''"
    using hd_dropWhile[of "\<lambda>c. c = CHR ''.''" s] Cons by auto
  then have "dropWhile (\<lambda>c. c = CHR ''.'') (rev ys @ [y])
             = dropWhile (\<lambda>c. c = CHR ''.'') (rev ys) @ [y]"
    by (simp add: dropWhile_append3)
  then have "strip_dots s = y # rev (dropWhile (\<lambda>c. c = CHR ''.'') (rev ys))"
    by (simp add: strip_dots_def Cons)
  with y show ?thesis by simp
qed

lemma strip_dots_not_dot_wav: "strip_dots s \<noteq> ''.wav''"
  using strip_dots_head[of s] by auto

lemma flac_always_skipped:
  "benchmark_loop w file_path original_size (''flac'' # tools) results evs
   = benchmark_loop w file_path original_size tools
       \<lparr>ratios = dict_set (ratios results) ''flac'' 0,
        sizes = dict_set (sizes results) ''flac'' (real original_size)\<rparr> evs"
  by (simp add: strip_dots_not_dot_wav)

lemma example_song:
  "files example_world ''song.wav''
   = Some \<lparr>content = [82, 73, 70, 70, 4, 0, 0, 0, 87, 65, 86, 69], can_open = True,
           read_fault = None\<rparr>"
  by (simp add: example_world_def example_files_def)

section \<open>The full benchmark\<close>

text \<open>
  Claim C1. The claim is that flac is skipped exactly for the inputs whose extension is not
  wav, and run through \<open>run_single_compression\<close> for every wav input. The loop compares the
  extension, already stripped of its dots, with \<open>.wav\<close>, so the branch that skips flac is
  taken for every input (\<open>flac_always_skipped\<close>). Evaluated on the wav file of the example
  environment: the extension is \<open>wav\<close>, the ratio recorded for flac is 0, its size is the
  original 12 bytes, and flac is neither looked up nor run.
\<close>

theorem flac_skipped_on_wav_input:
  "strip_dots (lower (snd (splitext ''song.wav''))) = ''wav''
   \<and> run_full_benchmark example_world ''song.wav'' ''flac''
     = (Inr \<lparr>ratios = [(''7zip'', 2 / 5), (''zip'', 2 / 5), (''winrar'', 2 / 5),
                       (''gzip'', 2 / 5), (''bzip2'', 2 / 5), (''flac'', 0)],
             sizes = [(''7zip'', 30), (''zip'', 30), (''winrar'', 30),
                      (''gzip'', 30), (''bzip2'', 30), (''flac'', 12)]\<rparr>,
        [Which ''7z'',
         CopyFile ''song.wav'' ''/tmp/tmpdir/song.wav'',
         Run [''/usr/bin/7z'', ''a'', ''-y'', ''/tmp/tmpdir/output.7z'', ''song.wav''] ''/tmp/tmpdir'',
         CopyFile ''/tmp/tmpdir/output.7z'' ''compressed_output.7zip'',
         Which ''zip'',
         CopyFile ''song.wav'' ''/tmp/tmpdir/song.wav'',
         Run [''/usr/bin/zip'', ''-9'', ''-j'', ''/tmp/tmpdir/output.zip'', ''song.wav''] ''/tmp/tmpdir'',
         CopyFile ''/tmp/tmpdir/output.zip'' ''compressed_output.zip'',
         Which ''rar'',
         CopyFile ''song.wav'' ''/tmp/tmpdir/song.wav'',
         Run [''/usr/bin/rar'', ''a'', ''-m5'', ''-o+'', ''/tmp/tmpdir/output.rar'', ''song.wav'']
           ''/tmp/tmpdir'',
         CopyFile ''/tmp/tmpdir/output.rar'' ''compressed_output.winrar'',
         Which ''gzip'',
         CopyFile ''song.wav'' ''/tmp/tmpdir/song.wav'',
         Run [''/usr/bin/gzip'', ''-9'', ''/tmp/tmpdir/song.wav''] ''/tmp/tmpdir'',
         CopyFile ''/tmp/tmpdir/song.wav.gz'' ''compressed_output.gzip'',
         Which ''bzip2'',
         CopyFile ''song.wav'' ''/tmp/tmpdir/song.wav'',
         Run [''/usr/bin/bzip2'', ''-9'', ''/tmp/tmpdir/song.wav''] ''/tmp/tmpdir'',
         CopyFile ''/tmp/tmpdir/song.wav.bz2'' ''compressed_output.bzip2''])"
proof
  show "strip_dots (lower (snd (splitext ''song.wav''))) = ''wav''"
    by (rule ext_song)
next
  have sz: "getsize example_world ''song.wav'' = Inr 12"
    by (simp add: getsize_def example_song)
  have s1: "run_single_compression example_world ''7zip'' ''song.wav''
     = (Inr (2 / 5, 1, Some ''compressed_output.7zip''),
        [Which ''7z'',
         CopyFile ''song.wav'' ''/tmp/tmpdir/song.wav'',
         Run [''/usr/bin/7z'', ''a'', ''-y'', ''/tmp/tmpdir/output.7z'', ''song.wav''] ''/tmp/tmpdir'',
         CopyFile ''/tmp/tmpdir/output.7z'' ''compressed_output.7zip''])"
    by (simp add: run_single_compression_def run_single_compression_try_def run_tool_def tool_command_def
      run_checked_def getsize_def example_world_def example_files_def COMPRESSOR_PATHS_def
      basename_def path_join_def rfind_def Let_def)
  have s2: "run_single_compression example_world ''zip'' ''song.wav''
     = (Inr (2 / 5, 1, Some ''compressed_output.zip''),
        [Which ''zip'',
         CopyFile ''song.wav'' ''/tmp/tmpdir/song.wav'',
         Run [''/usr/bin/zip'', ''-9'', ''-j'', ''/tmp/tmpdir/output.zip'', ''song.wav''] ''/tmp/tmpdir'',
         CopyFile ''/tmp/tmpdir/output.zip'' ''compressed_output.zip''])"
    by (simp add: run_single_compression_def run_single_compression_try_def run_tool_def tool_command_def
      run_checked_def getsize_def example_world_def example_files_def COMPRESSOR_PATHS_def
      basename_def path_join_def rfind_def Let_def)
  have s3: "run_single_compression example_world ''winrar'' ''song.wav''
     = (Inr (2 / 5, 1, Some ''compressed_output.winrar''),
        [Which ''rar'',
         CopyFile ''song.wav'' ''/tmp/tmpdir/song.wav'',
         Run [''/usr/bin/rar'', ''a'', ''-m5'', ''-o+'', ''/tmp/tmpdir/output.rar'', ''song.wav'']
           ''/tmp/tmpdir'',
         CopyFile ''/tmp/tmpdir/output.rar'' ''compressed_output.winrar''])"
    by (simp add: run_single_compression_def run_single_compression_try_def run_tool_def tool_command_def
      run_checked_def getsize_def example_world_def example_files_def COMPRESSOR_PATHS_def
      basename_def path_join_def rfind_def Let_def)
  have s4: "run_single_compression example_world ''gzip'' ''song.wav''
     = (Inr (2 / 5, 1, Some ''compressed_output.gzip''),
        [Which ''gzip'',
         CopyFile ''song.wav'' ''/tmp/tmpdir/song.wav'',
         Run [''/usr/bin/gzip'', ''-9'', ''/tmp/tmpdir/song.wav''] ''/tmp/tmpdir'',
         CopyFile ''/tmp/tmpdir/song.wav.gz'' ''compressed_output.gzip''])"
    by (simp add: run_single_compression_def run_single_compression_try_def run_tool_def tool_command_def
      run_checked_def getsize_def example_world_def example_files_def COMPRESSOR_PATHS_def
      basename_def path_join_def rfind_def Let_def)
  have s5: "run_single_compression example_world ''bzip2'' ''song.wav''
     = (Inr (2 / 5, 1, Some ''compressed_output.bzip2''),
        [Which ''bzip2'',
         CopyFile ''song.wav'' ''/tmp/tmpdir/song.wav'',
         Run [''/usr/bin/bzip2'', ''-9'', ''/tmp/tmpdir/song.wav''] ''/tmp/tmpdir'',
         CopyFile ''/tmp/tmpdir/song.wav.bz2'' ''compressed_output.bzip2''])"
    by (simp add: run_single_compression_def run_single_compression_try_def run_tool_def tool_command_def
      run_checked_def getsize_def example_world_def example_files_def COMPRESSOR_PATHS_def
      basename_def path_join_def rfind_def Let_def)
  show "run_full_benchmark example_world ''song.wav'' ''flac''
     = (Inr \<lparr>ratios = [(''7zip'', 2 / 5), (''zip'', 2 / 5), (''winrar'', 2 / 5),
                       (''gzip'', 2 / 5), (''bzip2'', 2 / 5), (''flac'', 0)],
             sizes = [(''7zip'', 30), (''zip'', 30), (''winrar'', 30),
                      (''gzip'', 30), (''bzip2'', 30), (''flac'', 12)]\<rparr>,
        [Which ''7z'',
         CopyFile ''song.wav'' ''/tmp/tmpdir/song.wav'',
         Run [''/usr/bin/7z'', ''a'', ''-y'', ''/tmp/tmpdir/output.7z'', ''song.wav''] ''/tmp/tmpdir'',
         CopyFile ''/tmp/tmpdir/output.7z'' ''compressed_output.7zip'',
         Which ''zip'',
         CopyFile ''song.wav'' ''/tmp/tmpdir/song.wav'',
         Run [''/usr/bin/zip'', ''-9'', ''-j'', ''/tmp/tmpdir/output.zip'', ''song.wav''] ''/tmp/tmpdir'',
         CopyFile ''/tmp/tmpdir/output.zip'' ''compressed_output.zip'',
         Which ''rar'',
         CopyFile ''song.wav'' ''/tmp/tmpdir/song.wav'',
         Run [''/usr/bin/rar'', ''a'', ''-m5'', ''-o+'', ''/tmp/tmpdir/output.rar'', ''song.wav'']
           ''/tmp/tmpdir'',
         CopyFile ''/tmp/tmpdir/output.rar'' ''compressed_output.winrar'',
         Which ''gzip'',
         CopyFile ''song.wav'' ''/tmp/tmpdir/song.wav'',
         Run [''/usr/bin/gzip'', ''-9'', ''/tmp/tmpdir/song.wav''] ''/tmp/tmpdir'',
         CopyFile ''/tmp/tmpdir/song.wav.gz'' ''compressed_output.gzip'',
         Which ''bzip2'',
         CopyFile ''song.wav'' ''/tmp/tmpdir/song.wav'',
         Run [''/usr/bin/bzip2'', ''-9'', ''/tmp/tmpdir/song.wav''] ''/tmp/tmpdir'',
         CopyFile ''/tmp/tmpdir/song.wav.bz2'' ''compressed_output.bzip2''])"
    by (simp add: run_full_benchmark_def sz all_tools_def s1 s2 s3 s4 s5 ext_song)
qed

section \<open>Validation in the predictor\<close>








end
